theory Spec2Isabelle
  imports Complex_Main
begin

section \<open>JavaScript values and the runtime the application calls\<close>

text \<open>
  The application is TypeScript; at run time its data are JavaScript values. The values
  that \<^verbatim>\<open>JSON.parse\<close> can return and \<^verbatim>\<open>JSON.stringify\<close> can write are modelled
  by \<open>json\<close>. An object is the list of its own properties, read with \<open>map_of\<close> (the
  first pair of a name counts); \<open>undefined\<close>, the value of an absent property, is
  \<open>None\<close> of \<open>json option\<close>.

  A number is a finite value, one of the two infinities (\<^verbatim>\<open>JSON.parse\<close> gives
  \<^verbatim>\<open>Infinity\<close> for \<^verbatim>\<open>1e400\<close>) or \<^verbatim>\<open>NaN\<close>. The finite values are taken
  from the reals, of which the doubles are a part; negative zero is not told apart from
  zero, as \<^verbatim>\<open>===\<close> does not. Strings are lists of characters; the application only
  compares, joins and slices them.
\<close>

datatype js_number =
    Finite real
  | PosInfinity
  | NegInfinity
  | NaN

datatype json =
    JNull
  | JBool bool
  | JNumber js_number
  | JString string
  | JArray "json list"
  | JObject "(string \<times> json) list"

datatype js_error =
    SyntaxError
  | TypeError
  | Error string
  | Rejected
  | QuotaExceededError

text \<open>\<^verbatim>\<open>!!v\<close> for a value that may be \<open>undefined\<close>.\<close>

fun truthy :: "json option \<Rightarrow> bool" where
  "truthy None = False"
| "truthy (Some JNull) = False"
| "truthy (Some (JBool b)) = b"
| "truthy (Some (JNumber n)) = (n \<noteq> Finite 0 \<and> n \<noteq> NaN)"
| "truthy (Some (JString s)) = (s \<noteq> [])"
| "truthy (Some (JArray xs)) = True"
| "truthy (Some (JObject kvs)) = True"

text \<open>\<^verbatim>\<open>typeof v\<close>.\<close>

fun typeof :: "json option \<Rightarrow> string" where
  "typeof None = ''undefined''"
| "typeof (Some JNull) = ''object''"
| "typeof (Some (JBool b)) = ''boolean''"
| "typeof (Some (JNumber n)) = ''number''"
| "typeof (Some (JString s)) = ''string''"
| "typeof (Some (JArray xs)) = ''object''"
| "typeof (Some (JObject kvs)) = ''object''"

text \<open>
  \<^verbatim>\<open>item.k\<close> for one of the property names the application reads (\<open>id\<close>,
  \<open>imageDataUrl\<close>, \<open>mimeType\<close>, \<open>prompt\<close>, \<open>timestamp\<close>; no prototype defines
  them): reading a property of \<open>null\<close> throws a TypeError, an object gives its own
  property or \<open>undefined\<close>, every other value gives \<open>undefined\<close>.
\<close>

fun js_get :: "json \<Rightarrow> string \<Rightarrow> js_error + json option" where
  "js_get JNull k = Inl TypeError"
| "js_get (JObject kvs) k = Inr (map_of kvs k)"
| "js_get (JBool b) k = Inr None"
| "js_get (JNumber n) k = Inr None"
| "js_get (JString s) k = Inr None"
| "js_get (JArray xs) k = Inr None"

text \<open>\<^verbatim>\<open>Array.isArray(v)\<close>.\<close>

fun isArray :: "json \<Rightarrow> bool" where
  "isArray (JArray xs) = True"
| "isArray v = False"

text \<open>
  What the browser provides is a parameter of the model. \<open>JSON_parse text\<close> is
  \<open>None\<close> where \<^verbatim>\<open>JSON.parse(text)\<close> throws a SyntaxError; \<open>JSON_stringify v n\<close>
  is \<^verbatim>\<open>JSON.stringify(v, null, n)\<close>, with \<open>n = 0\<close> for the call with one argument;
  \<open>localStorage_setItem item\<close> tells whether
  \<^verbatim>\<open>localStorage.setItem('ai-photo-studio-library', item)\<close> stores the item (true) or
  throws because the store is full (false).
\<close>

record js_runtime =
  JSON_parse :: "string \<Rightarrow> json option"
  JSON_stringify :: "json \<Rightarrow> nat \<Rightarrow> string"
  localStorage_setItem :: "string \<Rightarrow> bool"

section \<open>services/geminiService: the three generation requests\<close>

datatype AspectRatio = R_1_1 | R_16_9 | R_9_16 | R_4_3 | R_3_4

record ImageInput =
  base64 :: string
  mimeType :: string

datatype part =
    inlineData string string
  | text_part string

text \<open>What is passed to \<^verbatim>\<open>ai.models.generateImages\<close> and \<^verbatim>\<open>ai.models.generateContent\<close>.\<close>

datatype request =
    generateImages string string nat string AspectRatio
  | generateContent string "part list" "string list"

text \<open>
  What the remote call resolves to: for \<^verbatim>\<open>generateImages\<close> the field
  \<open>generatedImages\<close> (possibly undefined) as the list of each image's bytes, for
  \<^verbatim>\<open>generateContent\<close> the candidates, each as its \<open>content.parts\<close>.
\<close>

datatype response =
    images_response "string list option"
  | content_response "part list list"

text \<open>A string parameter that may be omitted is truthy when present and non-empty.\<close>

fun truthy_string :: "string option \<Rightarrow> bool" where
  "truthy_string None = False"
| "truthy_string (Some s) = (s \<noteq> [])"

text \<open>The loop over the parts of the first candidate, returning the first inline image.\<close>

fun first_inlineData :: "part list \<Rightarrow> js_error + string" where
  "first_inlineData [] = Inl (Error ''No image part found in the response.'')"
| "first_inlineData (inlineData d m # ps) = Inr d"
| "first_inlineData (text_part t # ps) = first_inlineData ps"

fun content_result :: "js_error + response \<Rightarrow> js_error + string" where
  "content_result (Inl e) = Inl e"
| "content_result (Inr (content_response [])) = Inl TypeError"
| "content_result (Inr (content_response (ps # cs))) = first_inlineData ps"
| "content_result (Inr (images_response r)) = Inl TypeError"

fun images_result :: "js_error + response \<Rightarrow> js_error + string" where
  "images_result (Inl e) = Inl e"
| "images_result (Inr (images_response (Some (b # bs)))) = Inr b"
| "images_result (Inr r) = Inl (Error ''No image was generated.'')"

text \<open>
  The three exported functions; \<open>ai\<close> is the remote service, \<open>stylePrompt\<close> the optional
  parameter, \<open>aspectRatio\<close> the parameter with default \<^verbatim>\<open>'1:1'\<close>.
\<close>

definition generateImageFromText ::
  "(request \<Rightarrow> js_error + response) \<Rightarrow> string \<Rightarrow> string option \<Rightarrow> AspectRatio option
     \<Rightarrow> js_error + string" where
  "generateImageFromText ai prompt stylePrompt aspectRatio =
     (let finalPrompt =
            (if truthy_string stylePrompt then prompt @ '', '' @ the stylePrompt else prompt)
      in images_result
           (ai (generateImages ''imagen-4.0-generate-001'' finalPrompt 1 ''image/png''
                  (case aspectRatio of None \<Rightarrow> R_1_1 | Some r \<Rightarrow> r))))"

definition generateImageFromImage ::
  "(request \<Rightarrow> js_error + response) \<Rightarrow> string \<Rightarrow> ImageInput \<Rightarrow> string option
     \<Rightarrow> js_error + string" where
  "generateImageFromImage ai prompt img stylePrompt =
     (let finalPrompt =
            (if truthy_string stylePrompt then prompt @ '', '' @ the stylePrompt else prompt)
      in content_result
           (ai (generateContent ''gemini-2.5-flash-image''
                  [inlineData (base64 img) (mimeType img), text_part finalPrompt]
                  [''IMAGE''])))"

definition generateImageFromTwoImages ::
  "(request \<Rightarrow> js_error + response) \<Rightarrow> string \<Rightarrow> ImageInput \<Rightarrow> ImageInput \<Rightarrow> string option
     \<Rightarrow> js_error + string" where
  "generateImageFromTwoImages ai prompt image1 image2 stylePrompt =
     (let finalPrompt =
            (if truthy_string stylePrompt then prompt @ '', '' @ the stylePrompt else prompt)
      in content_result
           (ai (generateContent ''gemini-2.5-flash-image''
                  [inlineData (base64 image1) (mimeType image1),
                   inlineData (base64 image2) (mimeType image2),
                   text_part finalPrompt]
                  [''IMAGE''])))"

section \<open>App: the image library\<close>

text \<open>
  \<^verbatim>\<open>interface SavedImage\<close> is a compile-time type; a library entry is a JavaScript
  object, and an imported entry keeps whatever properties its file gave it (the import
  checks four of them). An entry is therefore modelled as the list of its properties.
\<close>

type_synonym SavedImage = "(string \<times> json) list"

text \<open>
  The part of the component's state that the library handlers read and write, with the
  value stored under the key \<^verbatim>\<open>ai-photo-studio-library\<close> of \<^verbatim>\<open>localStorage\<close>.
\<close>

record app =
  library :: "SavedImage list"
  storage :: "string option"
  outputImage :: "string option"
  prompt :: string

text \<open>The messages of \<^verbatim>\<open>alert\<close>, named by their keys in \<^verbatim>\<open>UI_TEXT\<close>.\<close>

datatype alert =
    importSuccess nat
  | noNewImages
  | importError

text \<open>
  What the clock and the random generator give to one call of
  \<^verbatim>\<open>handleSaveToLibrary\<close>: the two interpolations of the id template and the
  \<^verbatim>\<open>Date.now()\<close> of the timestamp.
\<close>

record entropy =
  now_string :: string
  random_string :: string
  now :: int

text \<open>
  The effect run once on mount. The result is the value the \<open>library\<close> state holds
  afterwards: the initial \<^verbatim>\<open>[]\<close> where nothing is stored, \<^verbatim>\<open>[]\<close> where
  \<^verbatim>\<open>JSON.parse\<close> throws, and otherwise whatever was parsed.
\<close>

definition load :: "js_runtime \<Rightarrow> string option \<Rightarrow> json" where
  "load rt saved =
     (case saved of
        None \<Rightarrow> JArray []
      | Some s \<Rightarrow>
          if s = [] then JArray []
          else (case JSON_parse rt s of None \<Rightarrow> JArray [] | Some v \<Rightarrow> v))"

text \<open>
  \<^verbatim>\<open>updateLibrary\<close> sets the state first and writes to the store second. Where the
  write throws, the state is already set and the store keeps its old value: the result is
  the state reached together with the exception thrown, if any.
\<close>

definition updateLibrary ::
  "js_runtime \<Rightarrow> SavedImage list \<Rightarrow> app \<Rightarrow> app \<times> js_error option" where
  "updateLibrary rt newLibrary st =
     (let st1 = st\<lparr>library := newLibrary\<rparr>;
          item = JSON_stringify rt (JArray (map JObject newLibrary)) 0
      in if localStorage_setItem rt item then (st1\<lparr>storage := Some item\<rparr>, None)
         else (st1, Some QuotaExceededError))"

text \<open>\<^verbatim>\<open>s.indexOf(c)\<close> for a one-character \<open>c\<close>, and \<^verbatim>\<open>s.substring(a, b)\<close>.\<close>

fun indexOf :: "string \<Rightarrow> char \<Rightarrow> int" where
  "indexOf [] c = - 1"
| "indexOf (x # xs) c =
     (if x = c then 0 else (let i = indexOf xs c in if i < 0 then - 1 else i + 1))"

definition substring :: "string \<Rightarrow> int \<Rightarrow> int \<Rightarrow> string" where
  "substring s a b =
     (let n = int (length s);
          a' = max 0 (min a n);
          b' = max 0 (min b n);
          lo = min a' b';
          hi = max a' b'
      in take (nat (hi - lo)) (drop (nat lo) s))"

text \<open>
  The two handlers below are not inside a \<^verbatim>\<open>try\<close>: an exception of the write leaves
  them as it is, with the state already set.
\<close>

definition handleSaveToLibrary ::
  "js_runtime \<Rightarrow> entropy \<Rightarrow> app \<Rightarrow> app \<times> js_error option" where
  "handleSaveToLibrary rt e st =
     (case outputImage st of
        None \<Rightarrow> (st, None)
      | Some out \<Rightarrow>
          if out = [] \<or> prompt st = [] then (st, None)
          else
            (let mimeType = substring out (indexOf out CHR '':'' + 1) (indexOf out CHR '';'');
                 newImage =
                   [(''id'', JString (now_string e @ ''-'' @ random_string e)),
                    (''imageDataUrl'', JString out),
                    (''mimeType'', JString (if mimeType \<noteq> [] then mimeType else ''image/png'')),
                    (''prompt'', JString (prompt st)),
                    (''timestamp'', JNumber (Finite (of_int (now e))))]
             in updateLibrary rt (newImage # library st) st))"

definition handleDeleteFromLibrary ::
  "js_runtime \<Rightarrow> string \<Rightarrow> app \<Rightarrow> app \<times> js_error option" where
  "handleDeleteFromLibrary rt i st =
     (let updatedLibrary = filter (\<lambda>img. map_of img ''id'' \<noteq> Some (JString i)) (library st)
      in updateLibrary rt updatedLibrary st)"


text \<open>
  \<^verbatim>\<open>item.k && typeof item.k === ty\<close>, and \<^verbatim>\<open>&&\<close> between two such tests: the
  right operand is not evaluated when the left one is false.
\<close>

definition has_typed :: "json \<Rightarrow> string \<Rightarrow> string \<Rightarrow> js_error + bool" where
  "has_typed item k ty =
     (case js_get item k of Inl err \<Rightarrow> Inl err | Inr v \<Rightarrow> Inr (truthy v \<and> typeof v = ty))"

fun js_and :: "js_error + bool \<Rightarrow> js_error + bool \<Rightarrow> js_error + bool" where
  "js_and (Inl err) r = Inl err"
| "js_and (Inr False) r = Inr False"
| "js_and (Inr True) r = r"

text \<open>The callback of the filter that computes \<open>validImportedImages\<close>.\<close>

definition isValidImportedImage :: "json \<Rightarrow> js_error + bool" where
  "isValidImportedImage item =
     js_and (has_typed item ''id'' ''string'')
       (js_and (has_typed item ''imageDataUrl'' ''string'')
          (js_and (has_typed item ''prompt'' ''string'')
             (has_typed item ''timestamp'' ''number'')))"

text \<open>\<^verbatim>\<open>xs.filter(f)\<close> for a callback that may throw.\<close>

fun js_filter :: "('a \<Rightarrow> js_error + bool) \<Rightarrow> 'a list \<Rightarrow> js_error + 'a list" where
  "js_filter f [] = Inr []"
| "js_filter f (x # xs) =
     (case f x of
        Inl err \<Rightarrow> Inl err
      | Inr b \<Rightarrow>
          (case js_filter f xs of
             Inl err \<Rightarrow> Inl err
           | Inr ys \<Rightarrow> Inr (if b then x # ys else ys)))"

fun elements :: "json \<Rightarrow> json list" where
  "elements (JArray xs) = xs"
| "elements v = []"

text \<open>The annotation \<^verbatim>\<open>SavedImage[]\<close> on the filtered items: each is read as an object.\<close>

fun as_SavedImage :: "json \<Rightarrow> SavedImage" where
  "as_SavedImage (JObject kvs) = kvs"
| "as_SavedImage v = []"

text \<open>
  The body of the \<^verbatim>\<open>try\<close> block of \<^verbatim>\<open>reader.onload\<close>, on the text read from the
  file (a file that cannot be read only alerts \<open>importError\<close>). \<open>existingIds\<close> is a
  \<^verbatim>\<open>Set\<close>; its \<open>has\<close> is only asked about ids of validated entries, which are
  strings, where it agrees with equality of values. The result is either the exception
  thrown, with the state reached when it was thrown, or the state and the message of the
  \<^verbatim>\<open>alert\<close>.
\<close>

definition import_try ::
  "js_runtime \<Rightarrow> app \<Rightarrow> string \<Rightarrow> js_error \<times> app + app \<times> alert" where
  "import_try rt st text =
     (case JSON_parse rt text of
        None \<Rightarrow> Inl (SyntaxError, st)
      | Some importedData \<Rightarrow>
          if \<not> isArray importedData
          then Inl (Error ''Imported data is not an array.'', st)
          else
            (case js_filter isValidImportedImage (elements importedData) of
               Inl err \<Rightarrow> Inl (err, st)
             | Inr items \<Rightarrow>
                 (let validImportedImages = map as_SavedImage items;
                      existingIds = set (map (\<lambda>img. map_of img ''id'') (library st));
                      newImages =
                        filter (\<lambda>img. map_of img ''id'' \<notin> existingIds) validImportedImages
                  in if length newImages > 0
                     then (case updateLibrary rt (newImages @ library st) st of
                             (st1, Some err) \<Rightarrow> Inl (err, st1)
                           | (st1, None) \<Rightarrow> Inr (st1, importSuccess (length newImages)))
                     else Inr (st, noNewImages))))"

text \<open>
  The handler: the \<^verbatim>\<open>catch\<close> block alerts \<open>importError\<close> and changes nothing, so
  the state stays the one reached when the exception was thrown.
\<close>

definition handleImportLibrary :: "js_runtime \<Rightarrow> app \<Rightarrow> string \<Rightarrow> app \<times> alert" where
  "handleImportLibrary rt st text =
     (case import_try rt st text of
        Inl (err, st1) \<Rightarrow> (st1, importError)
      | Inr r \<Rightarrow> r)"

text \<open>
  \<^verbatim>\<open>img.imageDataUrl === outputImage\<close>, where \<open>outputImage\<close> is a string or
  \<open>null\<close>, and the property \<open>isSaved\<close> passed to the output panel.
\<close>

fun strict_equals :: "json option \<Rightarrow> string option \<Rightarrow> bool" where
  "strict_equals (Some (JString s)) (Some t) = (s = t)"
| "strict_equals (Some JNull) None = True"
| "strict_equals v w = False"

definition isSaved :: "app \<Rightarrow> bool" where
  "isSaved st =
     (find (\<lambda>img. strict_equals (map_of img ''imageDataUrl'') (outputImage st)) (library st)
        \<noteq> None)"

section \<open>Concrete entries, files and states used as instances\<close>

text \<open>
  The entry of the specification's scenario, an entry with an empty prompt, two entries
  that share the id \<open>a\<close>, an entry without a timestamp, an entry whose timestamp is
  \<^verbatim>\<open>Infinity\<close>, and the same entry with the timestamp \<open>null\<close>.
\<close>

abbreviation entry_x1 :: SavedImage where
  "entry_x1 \<equiv>
     [(''id'', JString ''x1''),
      (''imageDataUrl'', JString ''data:image/png;base64,AAAA''),
      (''mimeType'', JString ''image/png''),
      (''prompt'', JString ''cat''),
      (''timestamp'', JNumber (Finite 1000))]"


abbreviation entry_a1 :: SavedImage where
  "entry_a1 \<equiv>
     [(''id'', JString ''a''), (''imageDataUrl'', JString ''d''),
      (''prompt'', JString ''p''), (''timestamp'', JNumber (Finite 1))]"

abbreviation entry_a2 :: SavedImage where
  "entry_a2 \<equiv>
     [(''id'', JString ''a''), (''imageDataUrl'', JString ''e''),
      (''prompt'', JString ''q''), (''timestamp'', JNumber (Finite 2))]"

abbreviation entry_no_timestamp :: SavedImage where
  "entry_no_timestamp \<equiv>
     [(''id'', JString ''a''), (''imageDataUrl'', JString ''d''), (''prompt'', JString ''p'')]"



text \<open>
  The texts of files: exports as \<^verbatim>\<open>JSON.stringify(library, null, 2)\<close> writes them
  (\<^verbatim>\<open>Infinity\<close> is written as \<^verbatim>\<open>null\<close>), files written by hand, and the item
  stored for the library of \<open>entry_infinity\<close>.
\<close>

abbreviation file_x1 :: string where
  \<open>file_x1 \<equiv>
     ''[\<newline>  {\<newline>    "id": "x1",\<newline>    "imageDataUrl": "data:image/png;base64,AAAA",\<newline>    "mimeType": "image/png",\<newline>    "prompt": "cat",\<newline>    "timestamp": 1000\<newline>  }\<newline>]''\<close>


abbreviation file_a1_a2 :: string where
  \<open>file_a1_a2 \<equiv>
     ''[{"id":"a","imageDataUrl":"d","prompt":"p","timestamp":1},{"id":"a","imageDataUrl":"e","prompt":"q","timestamp":2}]''\<close>

abbreviation file_null_a1 :: string where
  \<open>file_null_a1 \<equiv> ''[null,{"id":"a","imageDataUrl":"d","prompt":"p","timestamp":1}]''\<close>

abbreviation file_no_timestamp :: string where
  \<open>file_no_timestamp \<equiv> ''[{"id":"a","imageDataUrl":"d","prompt":"p"}]''\<close>




text \<open>
  Stand-ins for the browser. \<open>runtime_on txt v\<close> reads \<open>txt\<close> as the value \<open>v\<close>,
  rejects every other text, writes \<open>txt\<close> (what it writes is only looked at in the
  instances of the export, which ask it for the text of \<open>v\<close>) and has room in the store.
  \<open>runtime_full txt v\<close> is the same with a full store. \<open>runtime_infinity\<close> reads the
  hand-written file with \<^verbatim>\<open>1e400\<close> and the export of the library it gives, and writes
  that library with \<open>null\<close> for \<^verbatim>\<open>Infinity\<close>, as the browser does. And the state with
  a given library, nothing stored, no output image and no prompt.
\<close>

abbreviation runtime_on :: "string \<Rightarrow> json \<Rightarrow> js_runtime" where
  "runtime_on txt v \<equiv>
     \<lparr>JSON_parse = map_of [(txt, v)], JSON_stringify = (\<lambda>w n. txt),
      localStorage_setItem = (\<lambda>item. True)\<rparr>"

abbreviation runtime_full :: "string \<Rightarrow> json \<Rightarrow> js_runtime" where
  "runtime_full txt v \<equiv>
     \<lparr>JSON_parse = map_of [(txt, v)], JSON_stringify = (\<lambda>w n. txt),
      localStorage_setItem = (\<lambda>item. False)\<rparr>"


abbreviation state_of :: "SavedImage list \<Rightarrow> app" where
  "state_of lib \<equiv> \<lparr>library = lib, storage = None, outputImage = None, prompt = []\<rparr>"

section \<open>Auxiliary facts about the import filter\<close>

lemma js_and_Inr: "js_and (Inr a) r = (if a then r else Inr False)"
  by (cases a) simp_all

lemma truthy_string_iff:
  "truthy v \<and> typeof v = ''string'' \<longleftrightarrow> (\<exists>s. s \<noteq> [] \<and> v = Some (JString s))"
proof (cases v)
  case None
  then show ?thesis by simp
next
  case (Some w)
  then show ?thesis by (cases w) simp_all
qed

lemma truthy_number_iff:
  "truthy v \<and> typeof v = ''number'' \<longleftrightarrow>
     (\<exists>n. n \<noteq> Finite 0 \<and> n \<noteq> NaN \<and> v = Some (JNumber n))"
proof (cases v)
  case None
  then show ?thesis by simp
next
  case (Some w)
  then show ?thesis by (cases w) simp_all
qed

lemma isValid_object_eq:
  "isValidImportedImage (JObject kvs) =
     Inr ((truthy (map_of kvs ''id'') \<and> typeof (map_of kvs ''id'') = ''string'') \<and>
          (truthy (map_of kvs ''imageDataUrl'') \<and>
             typeof (map_of kvs ''imageDataUrl'') = ''string'') \<and>
          (truthy (map_of kvs ''prompt'') \<and> typeof (map_of kvs ''prompt'') = ''string'') \<and>
          (truthy (map_of kvs ''timestamp'') \<and>
             typeof (map_of kvs ''timestamp'') = ''number''))"
  unfolding isValidImportedImage_def has_typed_def by (auto simp: js_and_Inr)

lemma isValid_not_null: "x \<noteq> JNull \<Longrightarrow> \<exists>b. isValidImportedImage x = Inr b"
  by (cases x) (auto simp: isValidImportedImage_def has_typed_def js_and_Inr)

lemma isValid_object: "isValidImportedImage x = Inr True \<Longrightarrow> \<exists>kvs. x = JObject kvs"
  by (cases x) (simp_all add: isValidImportedImage_def has_typed_def)

text \<open>
  An object passes the four tests exactly when \<open>id\<close>, \<open>imageDataUrl\<close> and
  \<open>prompt\<close> are non-empty strings and \<open>timestamp\<close> is a number other than zero and
  \<^verbatim>\<open>NaN\<close>; \<^verbatim>\<open>Infinity\<close> passes.
\<close>

lemma valid_image_iff:
  "isValidImportedImage (JObject kvs) = Inr True \<longleftrightarrow>
     (\<exists>i d p t. i \<noteq> [] \<and> d \<noteq> [] \<and> p \<noteq> [] \<and> t \<noteq> Finite 0 \<and> t \<noteq> NaN
        \<and> map_of kvs ''id'' = Some (JString i)
        \<and> map_of kvs ''imageDataUrl'' = Some (JString d)
        \<and> map_of kvs ''prompt'' = Some (JString p)
        \<and> map_of kvs ''timestamp'' = Some (JNumber t))"
  unfolding isValid_object_eq truthy_string_iff truthy_number_iff by auto

text \<open>One \<open>null\<close> anywhere in the array makes the filter throw.\<close>

lemma js_filter_null:
  "JNull \<in> set items \<Longrightarrow> js_filter isValidImportedImage items = Inl TypeError"
proof (induction items)
  case Nil
  then show ?case by simp
next
  case (Cons x xs)
  show ?case
  proof (cases "x = JNull")
    case True
    then show ?thesis by (simp add: isValidImportedImage_def has_typed_def)
  next
    case False
    with Cons have ih: "js_filter isValidImportedImage xs = Inl TypeError" by simp
    from False obtain b where "isValidImportedImage x = Inr b"
      using isValid_not_null by blast
    then show ?thesis by (simp add: ih)
  qed
qed

text \<open>Without a \<open>null\<close> it is the filter of the entries that pass the four tests.\<close>

lemma js_filter_total:
  "JNull \<notin> set items \<Longrightarrow>
     js_filter isValidImportedImage items =
       Inr (filter (\<lambda>x. isValidImportedImage x = Inr True) items)"
proof (induction items)
  case Nil
  then show ?case by simp
next
  case (Cons x xs)
  then have "x \<noteq> JNull" by auto
  then obtain b where b: "isValidImportedImage x = Inr b"
    using isValid_not_null by blast
  with Cons show ?case by simp
qed

lemma find_None_iff_ball: "find P xs = None \<longleftrightarrow> (\<forall>x\<in>set xs. \<not> P x)"
  by (induction xs) auto

text \<open>What \<^verbatim>\<open>updateLibrary\<close> leaves: the library is set whether or not the write throws.\<close>

lemma updateLibrary_library: "library (fst (updateLibrary rt lib st)) = lib"
  by (simp add: updateLibrary_def Let_def)

lemma updateLibrary_thrown:
  "snd (updateLibrary rt lib st) =
     (if localStorage_setItem rt (JSON_stringify rt (JArray (map JObject lib)) 0) then None
      else Some QuotaExceededError)"
  by (simp add: updateLibrary_def Let_def)

section \<open>The generation requests\<close>

text \<open>
  Claim C10. Each of the three request functions passes to the remote service a request
  whose prompt text is the prompt followed by a comma, a space and the style text when a
  non-empty style text is given, and the prompt unchanged when the style text is absent
  or empty.
\<close>

theorem finalPrompt_forwarded:
  "generateImageFromText ai p s r =
     images_result (ai (generateImages ''imagen-4.0-generate-001''
        (case s of None \<Rightarrow> p | Some t \<Rightarrow> if t = [] then p else p @ '', '' @ t)
        1 ''image/png'' (case r of None \<Rightarrow> R_1_1 | Some a \<Rightarrow> a)))
   \<and> generateImageFromImage ai p i1 s =
     content_result (ai (generateContent ''gemini-2.5-flash-image''
        [inlineData (base64 i1) (mimeType i1),
         text_part (case s of None \<Rightarrow> p | Some t \<Rightarrow> if t = [] then p else p @ '', '' @ t)]
        [''IMAGE'']))
   \<and> generateImageFromTwoImages ai p i1 i2 s =
     content_result (ai (generateContent ''gemini-2.5-flash-image''
        [inlineData (base64 i1) (mimeType i1), inlineData (base64 i2) (mimeType i2),
         text_part (case s of None \<Rightarrow> p | Some t \<Rightarrow> if t = [] then p else p @ '', '' @ t)]
        [''IMAGE'']))"
  by (cases s) (simp_all add: generateImageFromText_def generateImageFromImage_def
      generateImageFromTwoImages_def)

section \<open>The library\<close>

text \<open>
  Claim C9. For every library and every string \<open>s\<close>, the saved mark computed for the
  output image \<open>s\<close> is true exactly when some entry of the library has the property
  \<open>imageDataUrl\<close> equal to the string \<open>s\<close>.
\<close>

theorem isSaved_iff:
  "isSaved (st\<lparr>outputImage := Some s\<rparr>) \<longleftrightarrow>
     (\<exists>img\<in>set (library st). map_of img ''imageDataUrl'' = Some (JString s))"
proof -
  have eq: "strict_equals v (Some s) \<longleftrightarrow> v = Some (JString s)" for v
  proof (cases v)
    case None
    then show ?thesis by simp
  next
    case (Some w)
    then show ?thesis by (cases w) auto
  qed
  show ?thesis
    by (simp add: isSaved_def find_None_iff_ball eq)
qed

text \<open>
  The scenario of the specification: with the one entry \<open>x1\<close> in the library, the mark
  is set for its own data URL and not for another one.
\<close>

theorem isSaved_witness:
  "isSaved ((state_of [entry_x1])\<lparr>outputImage := Some ''data:image/png;base64,AAAA''\<rparr>)
   \<and> \<not> isSaved ((state_of [entry_x1])\<lparr>outputImage := Some ''data:image/png;base64,BBBB''\<rparr>)"
  using isSaved_iff [where st = "state_of [entry_x1]" and s = "''data:image/png;base64,AAAA''"]
    isSaved_iff [where st = "state_of [entry_x1]" and s = "''data:image/png;base64,BBBB''"]
  by simp

text \<open>
  Claim C5. For every library and every image whose id is a string that no entry of the
  library has as its id, putting the image in front of the library and then deleting
  that id gives back exactly the library, whether or not the writes to the store succeed.
\<close>

theorem remove_after_add:
  assumes "map_of newImage ''id'' = Some (JString i)"
    and "Some (JString i) \<notin> set (map (\<lambda>img. map_of img ''id'') (library st))"
  shows "library (fst (handleDeleteFromLibrary rt i
                         (fst (updateLibrary rt (newImage # library st) st))))
           = library st"
proof -
  have "filter (\<lambda>img. map_of img ''id'' \<noteq> Some (JString i)) (library st) = library st"
    using assms(2) by (auto simp: filter_id_conv intro: rev_image_eqI)
  then show ?thesis
    using assms(1)
    by (simp add: handleDeleteFromLibrary_def updateLibrary_library Let_def)
qed

theorem remove_after_add_witness:
  "library (fst (handleDeleteFromLibrary (runtime_on ''[]'' (JArray [])) ''x1''
                   (fst (updateLibrary (runtime_on ''[]'' (JArray [])) [entry_x1, entry_a1]
                           (state_of [entry_a1])))))
     = [entry_a1]
   \<and> library (fst (handleDeleteFromLibrary (runtime_full ''[]'' (JArray [])) ''x1''
                      (fst (updateLibrary (runtime_full ''[]'' (JArray [])) [entry_x1, entry_a1]
                              (state_of [entry_a1])))))
     = [entry_a1]"
  using remove_after_add [where newImage = entry_x1 and i = "''x1''"
      and st = "state_of [entry_a1]" and rt = "runtime_on ''[]'' (JArray [])"]
    remove_after_add [where newImage = entry_x1 and i = "''x1''"
      and st = "state_of [entry_a1]" and rt = "runtime_full ''[]'' (JArray [])"]
  by simp

text \<open>
  What one save does when its guard passes: the new image stands in front of the library,
  carries the id built from the clock and the random number and the output image as its
  data URL, and passes the import's tests when the clock does not read zero. Where the
  guard fails the state is unchanged and nothing is thrown.
\<close>

lemma handleSaveToLibrary_front:
  assumes "outputImage st = Some out" and "out \<noteq> []" and "prompt st \<noteq> []"
  shows "\<exists>newImage. library (fst (handleSaveToLibrary rt e st)) = newImage # library st
           \<and> map_of newImage ''id'' = Some (JString (now_string e @ ''-'' @ random_string e))
           \<and> map_of newImage ''imageDataUrl'' = Some (JString out)
           \<and> (now e \<noteq> 0 \<longrightarrow> isValidImportedImage (JObject newImage) = Inr True)"
  using assms
  by (simp add: handleSaveToLibrary_def updateLibrary_library Let_def isValid_object_eq)

lemma handleSaveToLibrary_guard:
  "outputImage st = None \<or> outputImage st = Some [] \<or> prompt st = []
     \<Longrightarrow> handleSaveToLibrary rt e st = (st, None)"
  by (auto simp: handleSaveToLibrary_def split: option.splits)

text \<open>
  Deleting the id of the image just saved gives the library back when that id is new, and
  the saved mark is set once the output image has been saved.
\<close>

lemma delete_after_save:
  assumes "outputImage st = Some out" and "out \<noteq> []" and "prompt st \<noteq> []"
    and "Some (JString (now_string e @ ''-'' @ random_string e))
           \<notin> set (map (\<lambda>img. map_of img ''id'') (library st))"
  shows "library (fst (handleDeleteFromLibrary rt (now_string e @ ''-'' @ random_string e)
                         (fst (handleSaveToLibrary rt e st))))
           = library st"
proof -
  have "filter (\<lambda>img. map_of img ''id'' \<noteq> Some (JString (now_string e @ ''-'' @ random_string e)))
          (library st) = library st"
    using assms(4) by (auto simp: filter_id_conv intro: rev_image_eqI)
  then show ?thesis
    using assms(1-3)
    by (simp add: handleDeleteFromLibrary_def handleSaveToLibrary_def updateLibrary_library
        Let_def)
qed

lemma isSaved_after_save:
  assumes "outputImage st = Some out" and "out \<noteq> []" and "prompt st \<noteq> []"
  shows "isSaved (fst (handleSaveToLibrary rt e st))"
  using assms
  by (auto simp: isSaved_def handleSaveToLibrary_def updateLibrary_def Let_def)

lemma delete_keeps_distinct:
  "distinct (map (\<lambda>img. map_of img ''id'') (library st))
     \<Longrightarrow> distinct (map (\<lambda>img. map_of img ''id'')
           (library (fst (handleDeleteFromLibrary rt i st))))"
  by (simp add: handleDeleteFromLibrary_def updateLibrary_library Let_def distinct_map_filter)

section \<open>Import\<close>

text \<open>
  The outcome of an import whose file parses to an array without \<open>null\<close>. With no
  validated entry whose id is new to the library, the state is unchanged and the message
  is \<open>noNewImages\<close>. Otherwise these entries are put in front of the library, in the
  order of the file; the message reports their number when the write to the store
  succeeds, and is \<open>importError\<close> when it throws, with the entries in the library all the
  same.
\<close>

lemma import_result:
  assumes "JSON_parse rt payload = Some (JArray items)"
    and "JNull \<notin> set items"
  shows "handleImportLibrary rt st payload =
    (if filter (\<lambda>img. map_of img ''id''
                    \<notin> set (map (\<lambda>img. map_of img ''id'') (library st)))
            (map as_SavedImage (filter (\<lambda>x. isValidImportedImage x = Inr True) items)) = []
     then (st, noNewImages)
     else (fst (updateLibrary rt
             (filter (\<lambda>img. map_of img ''id''
                    \<notin> set (map (\<lambda>img. map_of img ''id'') (library st)))
            (map as_SavedImage (filter (\<lambda>x. isValidImportedImage x = Inr True) items)) @ library st) st),
           if localStorage_setItem rt (JSON_stringify rt (JArray (map JObject
             (filter (\<lambda>img. map_of img ''id''
                    \<notin> set (map (\<lambda>img. map_of img ''id'') (library st)))
            (map as_SavedImage (filter (\<lambda>x. isValidImportedImage x = Inr True) items)) @ library st))) 0)
           then importSuccess (length
             (filter (\<lambda>img. map_of img ''id''
                    \<notin> set (map (\<lambda>img. map_of img ''id'') (library st)))
            (map as_SavedImage (filter (\<lambda>x. isValidImportedImage x = Inr True) items))))
           else importError))"
proof -
  define new where "new = filter (\<lambda>img. map_of img ''id''
                    \<notin> set (map (\<lambda>img. map_of img ''id'') (library st)))
            (map as_SavedImage (filter (\<lambda>x. isValidImportedImage x = Inr True) items))"
  have try1: "import_try rt st payload =
    (if length new > 0
     then (case updateLibrary rt (new @ library st) st of
             (st1, Some err) \<Rightarrow> Inl (err, st1)
           | (st1, None) \<Rightarrow> Inr (st1, importSuccess (length new)))
     else Inr (st, noNewImages))"
    unfolding import_try_def new_def
    by (simp only: assms(1) js_filter_total [OF assms(2)] option.case isArray.simps
        not_True_eq_False if_False elements.simps sum.case Let_def)
  have "handleImportLibrary rt st payload =
    (if new = [] then (st, noNewImages)
     else (fst (updateLibrary rt (new @ library st) st),
           if localStorage_setItem rt (JSON_stringify rt (JArray (map JObject (new @ library st))) 0)
           then importSuccess (length new) else importError))"
    by (cases "new = []")
      (simp_all add: handleImportLibrary_def try1 updateLibrary_def Let_def)
  then show ?thesis
    unfolding new_def .
qed

lemma import_lib:
  assumes "JSON_parse rt payload = Some (JArray items)"
    and "JNull \<notin> set items"
  shows "library (fst (handleImportLibrary rt st payload)) =
    filter (\<lambda>img. map_of img ''id''
                    \<notin> set (map (\<lambda>img. map_of img ''id'') (library st)))
            (map as_SavedImage (filter (\<lambda>x. isValidImportedImage x = Inr True) items)) @ library st"
  unfolding import_result [OF assms]
  by (simp add: updateLibrary_library del: set_map filter_map)

text \<open>
  Claim C4. For every library and every file whose text is not valid JSON, or is valid
  JSON whose top level is not an array, the import throws inside its \<^verbatim>\<open>try\<close> block
  (the parser's SyntaxError, or the handler's own error) before anything is changed, the
  user is shown the \<open>importError\<close> message, which is neither the success message nor the
  message for zero new images, and the state is unchanged.
\<close>

theorem import_parse_error:
  assumes "JSON_parse rt payload = None \<or> (\<exists>v. JSON_parse rt payload = Some v \<and> \<not> isArray v)"
  shows "(import_try rt st payload = Inl (SyntaxError, st) \<or>
          import_try rt st payload = Inl (Error ''Imported data is not an array.'', st))
         \<and> handleImportLibrary rt st payload = (st, importError)"
  using assms by (auto simp: handleImportLibrary_def import_try_def)

theorem import_parse_error_witness:
  "handleImportLibrary (runtime_on ''{}'' (JObject [])) (state_of [entry_x1]) ''not-json''
     = (state_of [entry_x1], importError)
   \<and> handleImportLibrary (runtime_on ''{}'' (JObject [])) (state_of [entry_x1]) ''{}''
     = (state_of [entry_x1], importError)"
  using import_parse_error [where rt = "runtime_on ''{}'' (JObject [])"
      and st = "state_of [entry_x1]" and payload = "''not-json''"]
    import_parse_error [where rt = "runtime_on ''{}'' (JObject [])"
      and st = "state_of [entry_x1]" and payload = "''{}''"]
  by simp

text \<open>
  Claim C7. For every library and every entry whose id occurs among the ids of the
  library, importing the one-element array of that entry leaves the state unchanged and
  reports zero new images with the ordinary message \<open>noNewImages\<close>, not the error
  message.
\<close>

theorem import_existing_id:
  assumes "JSON_parse rt payload = Some (JArray [e])"
    and "js_get e ''id'' = Inr v"
    and "v \<in> set (map (\<lambda>img. map_of img ''id'') (library st))"
  shows "handleImportLibrary rt st payload = (st, noNewImages)"
proof -
  from assms(2) have "e \<noteq> JNull" by auto
  then obtain b where b: "isValidImportedImage e = Inr b"
    using isValid_not_null by blast
  show ?thesis
  proof (cases b)
    case True
    with b have "isValidImportedImage e = Inr True" by simp
    then obtain kvs where e: "e = JObject kvs"
      using isValid_object by blast
    with assms(2) have "map_of kvs ''id'' = v" by simp
    with assms(3) have "map_of kvs ''id'' \<in> set (map (\<lambda>img. map_of img ''id'') (library st))"
      by simp
    then show ?thesis
      using assms(1) b True e
      by (simp add: handleImportLibrary_def import_try_def)
  next
    case False
    then show ?thesis
      using assms(1) b by (simp add: handleImportLibrary_def import_try_def)
  qed
qed

theorem import_existing_id_witness:
  "handleImportLibrary (runtime_on file_x1 (JArray [JObject entry_x1]))
     (state_of [entry_x1]) file_x1
     = (state_of [entry_x1], noNewImages)"
  using import_existing_id [where rt = "runtime_on file_x1 (JArray [JObject entry_x1])"
      and st = "state_of [entry_x1]" and payload = file_x1
      and e = "JObject entry_x1" and v = "Some (JString ''x1'')"]
  by simp

text \<open>
  Claim C6. For every library and every file that parses to an array of entries (as every
  exported file does), the first import puts in front of the library all validated entries
  of the file whose id the library did not have; importing the same file again at once
  leaves the resulting state unchanged and reports zero new images. The message of the
  first import is \<open>noNewImages\<close> when there is no such entry, reports their number when
  the write of the new library to the store succeeds, and is \<open>importError\<close> when that
  write throws; the entries are in the library in either case.
\<close>

theorem import_twice:
  assumes "JSON_parse rt payload = Some (JArray items)"
    and "JNull \<notin> set items"
  shows "let valid = map as_SavedImage (filter (\<lambda>x. isValidImportedImage x = Inr True) items);
             new = filter (\<lambda>img. map_of img ''id''
                                   \<notin> set (map (\<lambda>img. map_of img ''id'') (library st))) valid;
             r = handleImportLibrary rt st payload
         in library (fst r) = new @ library st
            \<and> snd r =
                (if new = [] then noNewImages
                 else if localStorage_setItem rt
                           (JSON_stringify rt (JArray (map JObject (new @ library st))) 0)
                      then importSuccess (length new)
                      else importError)
            \<and> handleImportLibrary rt (fst r) payload = (fst r, noNewImages)"
proof -
  define valid where
    "valid = map as_SavedImage (filter (\<lambda>x. isValidImportedImage x = Inr True) items)"
  define new where
    "new = filter (\<lambda>img. map_of img ''id''
                   \<notin> set (map (\<lambda>img. map_of img ''id'') (library st))) valid"
  define st1 where "st1 = fst (handleImportLibrary rt st payload)"
  have first: "handleImportLibrary rt st payload =
      (if new = [] then (st, noNewImages)
       else (fst (updateLibrary rt (new @ library st) st),
             if localStorage_setItem rt
                  (JSON_stringify rt (JArray (map JObject (new @ library st))) 0)
             then importSuccess (length new) else importError))"
    unfolding new_def valid_def by (rule import_result [OF assms])
  have lib1: "library st1 = new @ library st"
    unfolding st1_def new_def valid_def by (rule import_lib [OF assms])
  have alert1: "snd (handleImportLibrary rt st payload) =
      (if new = [] then noNewImages
       else if localStorage_setItem rt
                 (JSON_stringify rt (JArray (map JObject (new @ library st))) 0)
            then importSuccess (length new)
            else importError)"
    by (simp add: first)
  have none_new: "filter (\<lambda>img. map_of img ''id''
                   \<notin> set (map (\<lambda>img. map_of img ''id'') (library st1))) valid = []"
    unfolding lib1 new_def by (auto simp: filter_empty_conv)
  have second: "handleImportLibrary rt st1 payload = (st1, noNewImages)"
    unfolding import_result [OF assms, of st1] none_new [unfolded valid_def]
    by simp
  show ?thesis
    unfolding Let_def valid_def [symmetric] new_def [symmetric] st1_def [symmetric]
    using lib1 alert1 second by (simp only: simp_thms)
qed

text \<open>
  Two instances: with room in the store, and with a full store, where the entry is added,
  the message is \<open>importError\<close> and the second import still adds nothing.
\<close>

theorem import_twice_witness:
  "library (fst (handleImportLibrary (runtime_on file_x1 (JArray [JObject entry_x1]))
                   (state_of [entry_a1]) file_x1))
     = [entry_x1, entry_a1]
   \<and> snd (handleImportLibrary (runtime_on file_x1 (JArray [JObject entry_x1]))
             (state_of [entry_a1]) file_x1)
     = importSuccess 1
   \<and> handleImportLibrary (runtime_on file_x1 (JArray [JObject entry_x1]))
        (fst (handleImportLibrary (runtime_on file_x1 (JArray [JObject entry_x1]))
                (state_of [entry_a1]) file_x1))
        file_x1
     = (fst (handleImportLibrary (runtime_on file_x1 (JArray [JObject entry_x1]))
                (state_of [entry_a1]) file_x1),
        noNewImages)
   \<and> handleImportLibrary (runtime_full file_x1 (JArray [JObject entry_x1]))
        (state_of [entry_a1]) file_x1
     = (state_of [entry_x1, entry_a1], importError)
   \<and> handleImportLibrary (runtime_full file_x1 (JArray [JObject entry_x1]))
        (state_of [entry_x1, entry_a1]) file_x1
     = (state_of [entry_x1, entry_a1], noNewImages)"
  using import_twice [where rt = "runtime_on file_x1 (JArray [JObject entry_x1])"
      and st = "state_of [entry_a1]" and payload = file_x1 and items = "[JObject entry_x1]"]
    import_twice [where rt = "runtime_full file_x1 (JArray [JObject entry_x1])"
      and st = "state_of [entry_a1]" and payload = file_x1 and items = "[JObject entry_x1]"]
  by (simp add: isValid_object_eq Let_def handleImportLibrary_def import_try_def
      updateLibrary_def)

text \<open>
  An import keeps the ids of the library pairwise distinct when the validated entries of
  the file have pairwise distinct ids among themselves: the filter on \<open>existingIds\<close>
  compares with the library only.
\<close>

lemma import_keeps_distinct:
  assumes "JSON_parse rt payload = Some (JArray items)"
    and "JNull \<notin> set items"
    and "distinct (map (\<lambda>img. map_of img ''id'')
           (map as_SavedImage (filter (\<lambda>x. isValidImportedImage x = Inr True) items)))"
    and "distinct (map (\<lambda>img. map_of img ''id'') (library st))"
  shows "distinct (map (\<lambda>img. map_of img ''id'')
           (library (fst (handleImportLibrary rt st payload))))"
proof -
  define valid where
    "valid = map as_SavedImage (filter (\<lambda>x. isValidImportedImage x = Inr True) items)"
  define new where
    "new = filter (\<lambda>img. map_of img ''id''
                   \<notin> set (map (\<lambda>img. map_of img ''id'') (library st))) valid"
  have lib: "library (fst (handleImportLibrary rt st payload)) = new @ library st"
    unfolding new_def valid_def by (rule import_lib [OF assms(1,2)])
  have "distinct (map (\<lambda>img. map_of img ''id'') new)"
    using assms(3) unfolding new_def valid_def [symmetric] by (rule distinct_map_filter)
  moreover have "set (map (\<lambda>img. map_of img ''id'') new)
                   \<inter> set (map (\<lambda>img. map_of img ''id'') (library st)) = {}"
    unfolding new_def by auto
  ultimately show ?thesis
    unfolding lib using assms(4) by (simp only: map_append distinct_append simp_thms)
qed

text \<open>
  Claim C3. The ids of the library are meant to stay pairwise distinct under save, delete
  and import. The import compares each entry of the file with the ids of the current
  library, not with the other entries of the same file: importing into the empty library
  a file with two valid entries of id \<open>a\<close> adds both, in the order of the file, and
  the library then holds the id \<open>a\<close> twice.
\<close>

theorem import_duplicate_ids:
  "library (fst (handleImportLibrary
                   (runtime_on file_a1_a2 (JArray [JObject entry_a1, JObject entry_a2]))
                   (state_of []) file_a1_a2))
     = [entry_a1, entry_a2]
   \<and> snd (handleImportLibrary
             (runtime_on file_a1_a2 (JArray [JObject entry_a1, JObject entry_a2]))
             (state_of []) file_a1_a2)
     = importSuccess 2
   \<and> \<not> distinct (map (\<lambda>img. map_of img ''id'')
         (library (fst (handleImportLibrary
                          (runtime_on file_a1_a2 (JArray [JObject entry_a1, JObject entry_a2]))
                          (state_of []) file_a1_a2))))"
  by (simp add: handleImportLibrary_def import_try_def isValid_object_eq updateLibrary_def)

text \<open>
  The example of the specification for the structural validation: the entry without a
  timestamp is dropped, the library stays empty and no image is reported as added.
\<close>

lemma import_missing_timestamp:
  "handleImportLibrary (runtime_on file_no_timestamp (JArray [JObject entry_no_timestamp]))
     (state_of []) file_no_timestamp
     = (state_of [], noNewImages)"
  by (simp add: handleImportLibrary_def import_try_def isValid_object_eq)

text \<open>
  Claim C8. Entries that fail the structural validation are meant to be dropped without
  an error. The filter reads \<^verbatim>\<open>item.id\<close> first, which throws for the entry
  \<open>null\<close>: importing the array of \<open>null\<close> and one valid entry into the empty library
  shows the \<open>importError\<close> message and adds nothing, where dropping \<open>null\<close> would
  have added the valid entry.
\<close>

theorem import_null_entry:
  "import_try (runtime_on file_null_a1 (JArray [JNull, JObject entry_a1]))
     (state_of []) file_null_a1
     = Inl (TypeError, state_of [])
   \<and> handleImportLibrary (runtime_on file_null_a1 (JArray [JNull, JObject entry_a1]))
        (state_of []) file_null_a1
     = (state_of [], importError)"
  by (simp add: handleImportLibrary_def import_try_def isValidImportedImage_def has_typed_def)

section \<open>Export followed by import\<close>




section \<open>Loading the stored library\<close>

text \<open>
  Stored text that does not parse leaves the library empty, as for the text
  \<^verbatim>\<open>not-json\<close>; so does an absent value.
\<close>

lemma load_unparseable:
  "JSON_parse rt s = None \<Longrightarrow> load rt (Some s) = JArray []"
  by (simp add: load_def)

lemma load_not_json:
  "load (runtime_on ''{}'' (JObject [])) (Some ''not-json'') = JArray []"
  by (simp add: load_def)

lemma load_nothing_stored:
  "load rt None = JArray []"
  by (simp add: load_def)

text \<open>
  Claim C2. Malformed stored text is meant to give an empty library. Text that does not
  parse does (\<open>load_unparseable\<close>); text that parses to something that is not an
  array, such as \<^verbatim>\<open>{}\<close>, becomes the library state as it is, since the effect has
  no test like the \<^verbatim>\<open>Array.isArray\<close> test of the import.
\<close>

theorem load_non_array:
  "load (runtime_on ''{}'' (JObject [])) (Some ''{}'') = JObject []
   \<and> \<not> isArray (load (runtime_on ''{}'' (JObject [])) (Some ''{}''))
   \<and> load (runtime_on ''{}'' (JObject [])) (Some ''{}'') \<noteq> JArray []"
  by (simp add: load_def)

end
